theory Spec2Isabelle
  imports Main
begin

section \<open>GopherTalk FastAPI backend: authentication service and post controller\<close>

text \<open>
  The development embeds \<^verbatim>\<open>services/auth_service.py\<close> and
  \<^verbatim>\<open>controllers/post_controller.py\<close>. Instants are whole seconds since the epoch and
  are unbounded integers: lifetimes that take \<open>now\<close> beyond the range of
  \<^verbatim>\<open>datetime\<close> are outside the model, and so are secrets that the library
  \<^verbatim>\<open>jose\<close> refuses as keys of a keyed hash (those holding the marker of a PEM public
  key, of a certificate or of an \<^verbatim>\<open>ssh-rsa\<close> key).
\<close>

subsection \<open>Python values: exceptions, dictionaries, \<^verbatim>\<open>str\<close> and \<^verbatim>\<open>int\<close>\<close>

datatype exn =
    ValueError string
  | KeyError string
  | UnicodeEncodeError "nat list" nat nat
  | UnicodeDecodeError string nat

text \<open>Subscripting a dictionary, \<^verbatim>\<open>d[k]\<close>: a missing key raises \<^verbatim>\<open>KeyError\<close>.\<close>

definition getitem :: "(string \<rightharpoonup> 'v) \<Rightarrow> string \<Rightarrow> exn + 'v" where
  "getitem d k = (case d k of None \<Rightarrow> Inl (KeyError k) | Some v \<Rightarrow> Inr v)"

text \<open>\<^verbatim>\<open>str(n)\<close> for an integer: decimal digits, with a minus sign when negative.\<close>

definition digit_char :: "nat \<Rightarrow> char" where
  "digit_char d = char_of (48 + d)"

fun str_nat :: "nat \<Rightarrow> string" where
  "str_nat n = (if n < 10 then [digit_char n] else str_nat (n div 10) @ [digit_char (n mod 10)])"

declare str_nat.simps [simp del]

definition str :: "int \<Rightarrow> string" where
  "str i = (if i < 0 then CHR ''-'' # str_nat (nat (- i)) else str_nat (nat i))"

text \<open>
  \<^verbatim>\<open>int(s)\<close> for a string, base 10: surrounding white space is stripped, one sign is
  allowed, and the digits may be grouped by single underscores. Anything else raises
  \<^verbatim>\<open>ValueError\<close>. The strings are ASCII: the decimal digits and spaces of other
  scripts, which \<^verbatim>\<open>int\<close> also takes, and the limit on the number of digits are outside
  the model. The message shows the string between apostrophes, as \<^verbatim>\<open>repr\<close> does for a
  string without apostrophes, backslashes and control characters.
\<close>

definition is_space :: "char \<Rightarrow> bool" where
  "is_space c = ((of_char c :: nat) \<in> {9, 10, 11, 12, 13, 32})"

definition is_digit :: "char \<Rightarrow> bool" where
  "is_digit c = (48 \<le> (of_char c :: nat) \<and> (of_char c :: nat) \<le> 57)"

definition digit_val :: "char \<Rightarrow> nat" where
  "digit_val c = of_char c - 48"

definition strip :: "string \<Rightarrow> string" where
  "strip s = rev (dropWhile is_space (rev (dropWhile is_space s)))"

fun digits_val :: "nat \<Rightarrow> string \<Rightarrow> nat option" where
  "digits_val acc [] = Some acc"
| "digits_val acc (c # cs) =
     (if is_digit c then digits_val (10 * acc + digit_val c) cs
      else if c = CHR ''_'' then
        (case cs of
           [] \<Rightarrow> None
         | d # _ \<Rightarrow> if is_digit d then digits_val acc cs else None)
      else None)"

definition invalid_literal :: "string \<Rightarrow> exn" where
  "invalid_literal s = ValueError (''invalid literal for int() with base 10: '' @ [CHR 0x27] @ s @ [CHR 0x27])"

definition unsigned_int :: "string \<Rightarrow> string \<Rightarrow> exn + nat" where
  "unsigned_int s r =
     (case r of
        [] \<Rightarrow> Inl (invalid_literal s)
      | d # _ \<Rightarrow>
          if is_digit d then
            (case digits_val 0 r of None \<Rightarrow> Inl (invalid_literal s) | Some n \<Rightarrow> Inr n)
          else Inl (invalid_literal s))"

definition int_of_str :: "string \<Rightarrow> exn + int" where
  "int_of_str s =
     (case strip s of
        [] \<Rightarrow> Inl (invalid_literal s)
      | c # cs \<Rightarrow>
          if c = CHR ''-'' then
            (case unsigned_int s cs of Inl e \<Rightarrow> Inl e | Inr n \<Rightarrow> Inr (- int n))
          else if c = CHR ''+'' then
            (case unsigned_int s cs of Inl e \<Rightarrow> Inl e | Inr n \<Rightarrow> Inr (int n))
          else
            (case unsigned_int s (c # cs) of Inl e \<Rightarrow> Inl e | Inr n \<Rightarrow> Inr (int n)))"

subsection \<open>Text and bytes\<close>

text \<open>
  A Python \<^verbatim>\<open>str\<close> that is encoded or stored (a field of a request, a stored hash) is
  the list of its code points; \<^verbatim>\<open>bytes\<close> are a \<open>string\<close>. Literals of the source, keys
  and messages are written as \<open>string\<close>s of ASCII characters.
\<close>

type_synonym py_str = "nat list"

definition str_of_ascii :: "string \<Rightarrow> py_str" where
  "str_of_ascii s = map of_char s"

definition is_surrogate :: "nat \<Rightarrow> bool" where
  "is_surrogate c = (0xD800 \<le> c \<and> c \<le> 0xDFFF)"

text \<open>UTF-8 of one code point that is not a surrogate.\<close>

definition utf8_bytes :: "nat \<Rightarrow> string" where
  "utf8_bytes c =
     (if c < 0x80 then [char_of c]
      else if c < 0x800 then [char_of (0xC0 + c div 64), char_of (0x80 + c mod 64)]
      else if c < 0x10000 then
        [char_of (0xE0 + c div 4096), char_of (0x80 + (c div 64) mod 64),
         char_of (0x80 + c mod 64)]
      else
        [char_of (0xF0 + c div 262144), char_of (0x80 + (c div 4096) mod 64),
         char_of (0x80 + (c div 64) mod 64), char_of (0x80 + c mod 64)])"

text \<open>
  \<^verbatim>\<open>s.encode()\<close>: UTF-8, strict. A surrogate code point raises
  \<^verbatim>\<open>UnicodeEncodeError\<close>, whose \<^verbatim>\<open>object\<close> is the whole string and whose range
  \<^verbatim>\<open>start\<close> to \<^verbatim>\<open>end\<close> covers the run of surrogates found.
\<close>

fun encode_from :: "py_str \<Rightarrow> nat \<Rightarrow> py_str \<Rightarrow> exn + string" where
  "encode_from obj i [] = Inr []"
| "encode_from obj i (c # cs) =
     (if is_surrogate c then
        Inl (UnicodeEncodeError obj i (i + length (takeWhile is_surrogate (c # cs))))
      else
        (case encode_from obj (i + 1) cs of
           Inl e \<Rightarrow> Inl e
         | Inr bs \<Rightarrow> Inr (utf8_bytes c @ bs)))"

definition encode :: "py_str \<Rightarrow> exn + string" where
  "encode s = encode_from s 0 s"




text \<open>
  \<^verbatim>\<open>b.decode()\<close>: UTF-8, strict, over the byte values. An ill-formed sequence raises
  \<^verbatim>\<open>UnicodeDecodeError\<close>, of which the \<^verbatim>\<open>object\<close> and the \<^verbatim>\<open>start\<close> are kept.
\<close>

definition is_cont :: "nat \<Rightarrow> bool" where
  "is_cont b = (0x80 \<le> b \<and> b \<le> 0xBF)"

fun decode_from :: "string \<Rightarrow> nat \<Rightarrow> nat list \<Rightarrow> exn + py_str" where
  "decode_from obj i [] = Inr []"
| "decode_from obj i (b # bs) =
     (if b < 0x80 then
        (case decode_from obj (i + 1) bs of
           Inl e \<Rightarrow> Inl e
         | Inr cs \<Rightarrow> Inr (b # cs))
      else if 0xC2 \<le> b \<and> b \<le> 0xDF then
        (case bs of
           [] \<Rightarrow> Inl (UnicodeDecodeError obj i)
         | b1 # r \<Rightarrow>
             if is_cont b1 then
               (case decode_from obj (i + 2) r of
                  Inl e \<Rightarrow> Inl e
                | Inr cs \<Rightarrow> Inr (((b - 0xC0) * 64 + (b1 - 0x80)) # cs))
             else Inl (UnicodeDecodeError obj i))
      else if 0xE0 \<le> b \<and> b \<le> 0xEF then
        (case bs of
           [] \<Rightarrow> Inl (UnicodeDecodeError obj i)
         | b1 # bs1 \<Rightarrow>
             (case bs1 of
                [] \<Rightarrow> Inl (UnicodeDecodeError obj i)
              | b2 # r \<Rightarrow>
                  if (if b = 0xE0 then 0xA0 else 0x80) \<le> b1
                     \<and> b1 \<le> (if b = 0xED then 0x9F else 0xBF) \<and> is_cont b2 then
                    (case decode_from obj (i + 3) r of
                       Inl e \<Rightarrow> Inl e
                     | Inr cs \<Rightarrow>
                         Inr (((b - 0xE0) * 4096 + (b1 - 0x80) * 64 + (b2 - 0x80)) # cs))
                  else Inl (UnicodeDecodeError obj i)))
      else if 0xF0 \<le> b \<and> b \<le> 0xF4 then
        (case bs of
           [] \<Rightarrow> Inl (UnicodeDecodeError obj i)
         | b1 # bs1 \<Rightarrow>
             (case bs1 of
                [] \<Rightarrow> Inl (UnicodeDecodeError obj i)
              | b2 # bs2 \<Rightarrow>
                  (case bs2 of
                     [] \<Rightarrow> Inl (UnicodeDecodeError obj i)
                   | b3 # r \<Rightarrow>
                       if (if b = 0xF0 then 0x90 else 0x80) \<le> b1
                          \<and> b1 \<le> (if b = 0xF4 then 0x8F else 0xBF)
                          \<and> is_cont b2 \<and> is_cont b3 then
                         (case decode_from obj (i + 4) r of
                            Inl e \<Rightarrow> Inl e
                          | Inr cs \<Rightarrow>
                              Inr (((b - 0xF0) * 262144 + (b1 - 0x80) * 4096
                                    + (b2 - 0x80) * 64 + (b3 - 0x80)) # cs))
                       else Inl (UnicodeDecodeError obj i))))
      else Inl (UnicodeDecodeError obj i))"

definition decode :: "string \<Rightarrow> exn + py_str" where
  "decode bs = decode_from bs 0 (map of_char bs)"

subsection \<open>Module configuration (\<^verbatim>\<open>auth_service.py\<close>, lines 9 to 12)\<close>

type_synonym environ = "string \<rightharpoonup> string"

text \<open>\<^verbatim>\<open>os.getenv(key, default)\<close>.\<close>

definition getenv :: "environ \<Rightarrow> string \<Rightarrow> string \<Rightarrow> string" where
  "getenv environ key dflt = (case environ key of None \<Rightarrow> dflt | Some v \<Rightarrow> v)"

definition ACCESS_SECRET :: "environ \<Rightarrow> string" where
  "ACCESS_SECRET environ = getenv environ ''ACCESS_TOKEN_SECRET'' ''dev_secret''"

definition REFRESH_SECRET :: "environ \<Rightarrow> string" where
  "REFRESH_SECRET environ = getenv environ ''REFRESH_TOKEN_SECRET'' ''dev_refresh''"

definition ACCESS_EXPIRES :: "environ \<Rightarrow> exn + int" where
  "ACCESS_EXPIRES environ = int_of_str (getenv environ ''ACCESS_TOKEN_EXPIRES'' ''3600'')"

definition REFRESH_EXPIRES :: "environ \<Rightarrow> exn + int" where
  "REFRESH_EXPIRES environ = int_of_str (getenv environ ''REFRESH_TOKEN_EXPIRES'' ''86400'')"

text \<open>
  The four module globals, evaluated in source order when the module is imported; a
  \<^verbatim>\<open>ValueError\<close> of \<^verbatim>\<open>int\<close> aborts the import.
\<close>

record auth_config =
  access_secret :: string
  refresh_secret :: string
  access_expires :: int
  refresh_expires :: int

definition load_config :: "environ \<Rightarrow> exn + auth_config" where
  "load_config environ =
     (case ACCESS_EXPIRES environ of
        Inl e \<Rightarrow> Inl e
      | Inr a \<Rightarrow>
          (case REFRESH_EXPIRES environ of
             Inl e \<Rightarrow> Inl e
           | Inr r \<Rightarrow>
               Inr \<lparr>access_secret = ACCESS_SECRET environ,
                    refresh_secret = REFRESH_SECRET environ,
                    access_expires = a,
                    refresh_expires = r\<rparr>))"


subsection \<open>Signed tokens\<close>

text \<open>
  The object handed over by a validated token carries the subject; the claims of a minted
  token add the expiry instant.
\<close>

record 'u token_payload =
  sub :: 'u

record claims = "string token_payload" +
  exp :: int

text \<open>
  \<^verbatim>\<open>jwt.encode(claims, key, algorithm)\<close> of the library \<^verbatim>\<open>jose\<close>. The signing
  primitive is a parameter: \<open>sign alg key c\<close> is the signature of the claims \<open>c\<close>
  under the secret \<open>key\<close> with the algorithm \<open>alg\<close>, whatever the keyed hash makes of
  the secret. A token is the algorithm of its header, its claims and that signature.
\<close>

type_synonym 'sig sign = "string \<Rightarrow> string \<Rightarrow> claims \<Rightarrow> 'sig"

record 'sig jwt =
  algorithm :: string
  payload :: claims
  signature :: 'sig

definition jwt_encode :: "'sig sign \<Rightarrow> claims \<Rightarrow> string \<Rightarrow> string \<Rightarrow> 'sig jwt" where
  "jwt_encode sign c key alg = \<lparr>algorithm = alg, payload = c, signature = sign alg key c\<rparr>"

record 'sig token_pair =
  access_token :: "'sig jwt"
  refresh_token :: "'sig jwt"

text \<open>
  \<^verbatim>\<open>generate_token_pair(user_id)\<close>; \<open>now\<close> is the one reading of
  \<^verbatim>\<open>datetime.utcnow()\<close> that the function takes.
\<close>

definition generate_token_pair :: "auth_config \<Rightarrow> 'sig sign \<Rightarrow> int \<Rightarrow> int \<Rightarrow> 'sig token_pair" where
  "generate_token_pair cfg sign now user_id =
     (let access_token =
            jwt_encode sign \<lparr>sub = str user_id, exp = now + access_expires cfg\<rparr>
              (access_secret cfg) ''HS256'';
          refresh_token =
            jwt_encode sign \<lparr>sub = str user_id, exp = now + refresh_expires cfg\<rparr>
              (refresh_secret cfg) ''HS256''
      in \<lparr>access_token = access_token, refresh_token = refresh_token\<rparr>)"

datatype token_error = InvalidToken | ExpiredToken

text \<open>
  Modelled from the spec: the token check of the routing layer (\<^verbatim>\<open>dependencies/auth.py\<close>
  is not among the sources). \<^verbatim>\<open>verify(token, secret) -> user_id\<close> fails with
  \<^verbatim>\<open>InvalidToken\<close> if the signature check fails, that is if signing the token's claims
  with the given secret does not give the token's signature, and with \<^verbatim>\<open>ExpiredToken\<close>
  if \<^verbatim>\<open>exp <= now\<close>.
\<close>

definition verify :: "'sig sign \<Rightarrow> 'sig jwt \<Rightarrow> string \<Rightarrow> int \<Rightarrow> token_error + string" where
  "verify sign token secret now =
     (if signature token \<noteq> sign (algorithm token) secret (payload token) then Inl InvalidToken
      else if exp (payload token) \<le> now then Inl ExpiredToken
      else Inr (sub (payload token)))"

subsection \<open>Users and the credential store interface\<close>

text \<open>
  The dictionary \<^verbatim>\<open>user_data\<close> built by \<^verbatim>\<open>register\<close>, and the user row the
  repository returns: the same fields and the key \<^verbatim>\<open>id\<close>.
\<close>

record user_data =
  user_name :: py_str
  password_hash :: py_str
  first_name :: py_str
  last_name :: py_str

record user = user_data +
  id' :: int

text \<open>
  Modelled from the spec: the repository functions \<^verbatim>\<open>get_user_by_username\<close> and
  \<^verbatim>\<open>create_user\<close> (\<^verbatim>\<open>repositories/user_repository.py\<close> is not among the sources)
  follow the interface \<^verbatim>\<open>findUserByUsername(name) -> User?\<close> and
  \<^verbatim>\<open>insertUser(record) -> User | raises UniqueViolation\<close>. The service functions take
  them as parameters over a store state \<open>'db\<close>.
\<close>

datatype store_error = UniqueViolation

type_synonym 'db get_user_by_username = "'db \<Rightarrow> py_str \<Rightarrow> user option"

type_synonym 'db create_user = "'db \<Rightarrow> user_data \<Rightarrow> store_error + user \<times> 'db"

text \<open>
  The password hasher \<^verbatim>\<open>bcrypt\<close> is a pair of parameters over bytes, each of which
  may raise: \<open>hashpw password salt\<close> returns the hash, \<open>checkpw password hashed\<close>
  the verdict. The salt drawn by \<^verbatim>\<open>bcrypt.gensalt()\<close> is an input of
  \<^verbatim>\<open>register\<close>.
\<close>

type_synonym hashpw = "string \<Rightarrow> string \<Rightarrow> exn + string"

type_synonym checkpw = "string \<Rightarrow> string \<Rightarrow> exn + bool"

subsection \<open>\<^verbatim>\<open>login\<close> and \<^verbatim>\<open>register\<close>\<close>

text \<open>
  Line 20 evaluates \<^verbatim>\<open>dto["password"].encode()\<close>, then
  \<^verbatim>\<open>user["password_hash"].encode()\<close>, then the check; an error of any of them leaves
  \<^verbatim>\<open>login\<close> as it is.
\<close>

definition login ::
  "auth_config \<Rightarrow> 'sig sign \<Rightarrow> 'db get_user_by_username \<Rightarrow> checkpw \<Rightarrow> int \<Rightarrow> 'db
     \<Rightarrow> (string \<rightharpoonup> py_str) \<Rightarrow> exn + 'sig token_pair" where
  "login cfg sign get_user_by_username checkpw now db dto =
     (case getitem dto ''user_name'' of
        Inl e \<Rightarrow> Inl e
      | Inr name \<Rightarrow>
          (case get_user_by_username db name of
             None \<Rightarrow> Inl (ValueError ''User not found'')
           | Some user \<Rightarrow>
               (case getitem dto ''password'' of
                  Inl e \<Rightarrow> Inl e
                | Inr password \<Rightarrow>
                    (case encode password of
                       Inl e \<Rightarrow> Inl e
                     | Inr pw \<Rightarrow>
                         (case encode (password_hash user) of
                            Inl e \<Rightarrow> Inl e
                          | Inr hashed \<Rightarrow>
                              (case checkpw pw hashed of
                                 Inl e \<Rightarrow> Inl e
                               | Inr ok \<Rightarrow>
                                   if \<not> ok then Inl (ValueError ''Wrong password'')
                                   else Inr (generate_token_pair cfg sign now (id' user))))))))"

text \<open>
  Lines 27 to 34 of \<^verbatim>\<open>register\<close>: encode and hash the password, decode the hash, then
  build \<^verbatim>\<open>user_data\<close>.
\<close>

definition register_user_data :: "hashpw \<Rightarrow> string \<Rightarrow> (string \<rightharpoonup> py_str) \<Rightarrow> exn + user_data" where
  "register_user_data hashpw salt dto =
     (case getitem dto ''password'' of
        Inl e \<Rightarrow> Inl e
      | Inr password \<Rightarrow>
          (case encode password of
             Inl e \<Rightarrow> Inl e
           | Inr pw \<Rightarrow>
               (case hashpw pw salt of
                  Inl e \<Rightarrow> Inl e
                | Inr hashed \<Rightarrow>
                    (case decode hashed of
                       Inl e \<Rightarrow> Inl e
                     | Inr hashed_str \<Rightarrow>
                         (case getitem dto ''user_name'' of
                            Inl e \<Rightarrow> Inl e
                          | Inr uname \<Rightarrow>
                              (case getitem dto ''first_name'' of
                                 Inl e \<Rightarrow> Inl e
                               | Inr fname \<Rightarrow>
                                   (case getitem dto ''last_name'' of
                                      Inl e \<Rightarrow> Inl e
                                    | Inr lname \<Rightarrow>
                                        Inr \<lparr>user_name = uname, password_hash = hashed_str,
                                             first_name = fname, last_name = lname\<rparr>)))))))"

text \<open>Lines 36 to 40: insert, turn the uniqueness violation into \<^verbatim>\<open>ValueError\<close>, mint.\<close>

definition register ::
  "auth_config \<Rightarrow> 'sig sign \<Rightarrow> 'db create_user \<Rightarrow> hashpw \<Rightarrow> string \<Rightarrow> int \<Rightarrow> 'db
     \<Rightarrow> (string \<rightharpoonup> py_str) \<Rightarrow> exn + 'sig token_pair \<times> 'db" where
  "register cfg sign create_user hashpw salt now db dto =
     (case register_user_data hashpw salt dto of
        Inl e \<Rightarrow> Inl e
      | Inr user_data \<Rightarrow>
          (case create_user db user_data of
             Inl UniqueViolation \<Rightarrow> Inl (ValueError ''User already exists'')
           | Inr (user, db') \<Rightarrow> Inr (generate_token_pair cfg sign now (id' user), db')))"

subsection \<open>Credential store, hasher and signature to run the services on\<close>

text \<open>
  Modelled from the spec: the Credential Store (\<^verbatim>\<open>repositories/user_repository.py\<close> is
  not among the sources) holds user records, assigns each new user a unique id and enforces
  that usernames are unique: \<^verbatim>\<open>insertUser\<close> raises \<^verbatim>\<open>UniqueViolation\<close> when the
  username is taken, \<^verbatim>\<open>findUserByUsername\<close> returns the user with that name, if any.
\<close>

type_synonym cred_store = "user list"

definition findUserByUsername :: "cred_store get_user_by_username" where
  "findUserByUsername db name = find (\<lambda>u. user_name u = name) db"

definition fresh_id :: "cred_store \<Rightarrow> int" where
  "fresh_id db = 1 + fold max (map id' db) 0"

definition insertUser :: "cred_store create_user" where
  "insertUser db user_data =
     (if \<exists>u \<in> set db. user_name u = user_name user_data then Inl UniqueViolation
      else
        (let u = \<lparr>user_name = user_name user_data, password_hash = password_hash user_data,
                   first_name = first_name user_data, last_name = last_name user_data,
                   id' = fresh_id db\<rparr>
         in Inr (u, db @ [u])))"

text \<open>
  Stand-ins on which the services are run at concrete inputs. The hash is the first two
  bytes of the salt followed by the reversed password, and the check recomputes it from the
  salt found at the head of the hash. The signature keeps what was signed.
\<close>

definition toy_hashpw :: hashpw where
  "toy_hashpw password salt = Inr (take 2 salt @ rev password)"

definition toy_checkpw :: checkpw where
  "toy_checkpw password hashed = Inr (take 2 hashed @ rev password = hashed)"

definition toy_sign :: "(string \<times> string \<times> claims) sign" where
  "toy_sign alg key c = (alg, key, c)"

subsection \<open>Post controller (\<^verbatim>\<open>post_controller.py\<close>)\<close>

text \<open>
  What a handler raises: the \<^verbatim>\<open>HTTPException\<close> of its \<^verbatim>\<open>except\<close> clause, with status
  code and detail, or the validation error (status 422) with which the framework rejects
  a request whose parameters break the declared constraints, naming every such parameter,
  before the handler body runs.
\<close>

datatype http_error = HTTPException int string | RequestValidationError "string list"

text \<open>
  \<^verbatim>\<open>Query(default=d, ge=b)\<close> on an optional integer parameter: an absent parameter takes
  the default, a present one must be at least \<open>b\<close>. The result is the list of offending
  parameter names (empty when accepted) and the value handed to the handler.
\<close>

definition Query_ge :: "string \<Rightarrow> int option \<Rightarrow> int \<Rightarrow> int option \<Rightarrow> string list \<times> int option" where
  "Query_ge name dflt b raw =
     (case raw of
        None \<Rightarrow> ([], dflt)
      | Some v \<Rightarrow> if b \<le> v then ([], Some v) else ([name], None))"

text \<open>\<^verbatim>\<open>Path(..., gt=0)\<close> on a required integer path parameter.\<close>

definition Path_gt :: "string \<Rightarrow> int \<Rightarrow> int \<Rightarrow> string list" where
  "Path_gt name b v = (if b < v then [] else [name])"

text \<open>
  Modelled from the spec: the filter object (\<^verbatim>\<open>dto/post_dto.py\<close> is not among the
  sources) has the fields \<^verbatim>\<open>{viewer_id, limit, offset, reply_to_id?, owner_id?, search?}\<close>;
  the handler names the viewer field \<^verbatim>\<open>user_id\<close>.
\<close>

record 'u PostFilterDTO =
  user_id :: 'u
  limit :: "int option"
  offset :: "int option"
  reply_to_id :: "int option"
  owner_id :: "int option"
  search :: "string option"

text \<open>
  \<^verbatim>\<open>get_all_posts_handler\<close>. The service \<^verbatim>\<open>get_all_posts\<close> is a parameter and
  \<open>str_e\<close> renders its exception; \<open>user\<close> is what \<^verbatim>\<open>Depends(get_current_user)\<close>
  hands over. The primed arguments are the query parameters as sent (\<open>None\<close> when
  absent).
\<close>

definition get_all_posts_handler ::
  "('e \<Rightarrow> string) \<Rightarrow> ('u PostFilterDTO \<Rightarrow> 'e + 'r) \<Rightarrow> int option \<Rightarrow> int option \<Rightarrow> int option
     \<Rightarrow> int option \<Rightarrow> string option \<Rightarrow> 'u token_payload \<Rightarrow> http_error + 'r" where
  "get_all_posts_handler str_e get_all_posts limit' offset' reply_to_id' owner_id' search' user =
     (let (e1, limit_v) = Query_ge ''limit'' (Some 100) 1 limit';
          (e2, offset_v) = Query_ge ''offset'' (Some 0) 0 offset';
          (e3, reply_to_id_v) = Query_ge ''reply_to_id'' None 1 reply_to_id';
          (e4, owner_id_v) = Query_ge ''owner_id'' None 1 owner_id'
      in if e1 @ e2 @ e3 @ e4 \<noteq> [] then Inl (RequestValidationError (e1 @ e2 @ e3 @ e4))
         else
           (let filter_dto =
                  \<lparr>user_id = sub user, limit = limit_v, offset = offset_v,
                   reply_to_id = reply_to_id_v, owner_id = owner_id_v, search = search'\<rparr>
            in case get_all_posts filter_dto of
                 Inl e \<Rightarrow> Inl (HTTPException 400 (str_e e))
               | Inr posts \<Rightarrow> Inr posts))"

text \<open>
  \<^verbatim>\<open>like_post_handler\<close>. The service \<^verbatim>\<open>like_post\<close> is a parameter acting on a store
  state \<open>'s\<close>; \<open>str_e\<close> renders its exception. The handler returns nothing, so its
  result is the store the service leaves.
\<close>

definition like_post_handler ::
  "('e \<Rightarrow> string) \<Rightarrow> (int \<Rightarrow> 'u \<Rightarrow> 's \<Rightarrow> 'e + 's) \<Rightarrow> int \<Rightarrow> 'u token_payload \<Rightarrow> 's
     \<Rightarrow> http_error + 's" where
  "like_post_handler str_e like_post post_id user s =
     (if Path_gt ''post_id'' 0 post_id \<noteq> [] then
        Inl (RequestValidationError (Path_gt ''post_id'' 0 post_id))
      else
        (case like_post post_id (sub user) s of
           Inl e \<Rightarrow> Inl (HTTPException 404 (str_e e))
         | Inr s' \<Rightarrow> Inr s'))"

subsection \<open>Post store and the like operation\<close>

text \<open>
  Modelled from the spec: posts and like edges (\<^verbatim>\<open>services/post_service.py\<close> is not among
  the sources). A Post has \<^verbatim>\<open>id, owner_id, reply_to_id, body, created_at, view_count,
  like_count\<close>; a LikeEdge is a pair \<^verbatim>\<open>(post_id, user_id)\<close>, at most one per pair.
\<close>

record 'u post =
  post_owner :: 'u
  post_reply_to :: "int option"
  body :: string
  created_at :: int
  view_count :: int
  like_count :: int

record 'u post_store =
  posts :: "int \<rightharpoonup> 'u post"
  like_edges :: "(int \<times> 'u) set"

datatype post_error = PostNotFound

definition str_post_error :: "post_error \<Rightarrow> string" where
  "str_post_error e = (case e of PostNotFound \<Rightarrow> ''Post not found'')"

text \<open>
  Modelled from the spec: \<^verbatim>\<open>upsertLikeEdge(post_id, user_id) -> created:boolean\<close> inserts
  the edge only if it is absent and reports whether it did.
\<close>

definition upsertLikeEdge :: "int \<Rightarrow> 'u \<Rightarrow> 'u post_store \<Rightarrow> bool \<times> 'u post_store" where
  "upsertLikeEdge post_id viewer_id s =
     (if (post_id, viewer_id) \<in> like_edges s then (False, s)
      else (True, s\<lparr>like_edges := insert (post_id, viewer_id) (like_edges s)\<rparr>))"

text \<open>
  Modelled from the spec: \<^verbatim>\<open>likePost(post_id, viewer_id)\<close> fails with
  \<^verbatim>\<open>PostNotFound\<close> if the post is absent; creates the LikeEdge if absent and increments
  \<^verbatim>\<open>like_count\<close>; if the edge already exists this is a no-op, not an error.
\<close>

definition likePost :: "int \<Rightarrow> 'u \<Rightarrow> 'u post_store \<Rightarrow> post_error + 'u post_store" where
  "likePost post_id viewer_id s =
     (case posts s post_id of
        None \<Rightarrow> Inl PostNotFound
      | Some p \<Rightarrow>
          (let (created, s') = upsertLikeEdge post_id viewer_id s
           in if created
              then Inr (s'\<lparr>posts := (posts s')(post_id \<mapsto> p\<lparr>like_count := like_count p + 1\<rparr>)\<rparr>)
              else Inr s'))"

text \<open>The like relation of a (post, viewer) pair: \<^verbatim>\<open>{NotLiked, Liked}\<close>.\<close>

datatype like_state = NotLiked | Liked

definition like_relation :: "'u post_store \<Rightarrow> int \<Rightarrow> 'u \<Rightarrow> like_state" where
  "like_relation s post_id viewer_id =
     (if (post_id, viewer_id) \<in> like_edges s then Liked else NotLiked)"

section \<open>Properties\<close>

subsection \<open>Evaluation lemmas\<close>

lemmas int_of_str_eval =
  int_of_str_def strip_def is_space_def unsigned_int_def is_digit_def digit_val_def

lemma int_of_str_3600: "int_of_str ''3600'' = Inr 3600"
  by (simp add: int_of_str_eval)

lemma int_of_str_86400: "int_of_str ''86400'' = Inr 86400"
  by (simp add: int_of_str_eval)



lemma encode_from_ascii:
  "\<forall>c \<in> set s. (of_char c :: nat) < 0x80 \<Longrightarrow> encode_from obj i (map of_char s) = Inr s"
  by (induction s arbitrary: i) (auto simp: is_surrogate_def utf8_bytes_def)

lemma encode_ascii:
  "\<forall>c \<in> set s. (of_char c :: nat) < 0x80 \<Longrightarrow> encode (str_of_ascii s) = Inr s"
  by (simp add: encode_def str_of_ascii_def encode_from_ascii)

lemma decode_from_ascii:
  "\<forall>c \<in> set s. (of_char c :: nat) < 0x80 \<Longrightarrow>
     decode_from obj i (map of_char s) = Inr (map of_char s)"
  by (induction s arbitrary: i) auto

lemma decode_ascii:
  "\<forall>c \<in> set s. (of_char c :: nat) < 0x80 \<Longrightarrow> decode s = Inr (str_of_ascii s)"
  by (simp add: decode_def str_of_ascii_def decode_from_ascii)

lemma alice_is_not_bob: "str_of_ascii ''alice'' \<noteq> str_of_ascii ''bob''"
  by (simp add: str_of_ascii_def)



lemma find_snoc:
  "find P (xs @ [x]) = (case find P xs of None \<Rightarrow> if P x then Some x else None | Some y \<Rightarrow> Some y)"
  by (induction xs) auto

lemma insertUser_fresh:
  assumes "findUserByUsername db (user_name ud) = None"
  shows "insertUser db ud =
           Inr (\<lparr>user_name = user_name ud, password_hash = password_hash ud,
                 first_name = first_name ud, last_name = last_name ud, id' = fresh_id db\<rparr>,
                db @ [\<lparr>user_name = user_name ud, password_hash = password_hash ud,
                 first_name = first_name ud, last_name = last_name ud, id' = fresh_id db\<rparr>])"
  using assms by (auto simp: insertUser_def findUserByUsername_def find_None_iff Let_def)

lemma find_after_insert:
  assumes "findUserByUsername db (user_name u) = None"
  shows "findUserByUsername (db @ [u]) (user_name u) = Some u"
  using assms by (simp add: findUserByUsername_def find_snoc)

subsection \<open>Login\<close>




text \<open>
  C7. The claim that a login with a wrong password fails in the same way whether or not the
  username exists does not hold: with one registered user \<^verbatim>\<open>alice\<close>, the wrong password
  gives \<^verbatim>\<open>Wrong password\<close> for \<^verbatim>\<open>alice\<close> and \<^verbatim>\<open>User not found\<close> for
  \<^verbatim>\<open>bob\<close>.
\<close>

theorem login_messages_tell_users_apart:
  "login \<lparr>access_secret = ''dev_secret'', refresh_secret = ''dev_refresh'',
          access_expires = 3600, refresh_expires = 86400\<rparr>
      toy_sign findUserByUsername toy_checkpw 1000
      [\<lparr>user_name = str_of_ascii ''alice'', password_hash = str_of_ascii ''s1terces'',
        first_name = str_of_ascii ''A'', last_name = str_of_ascii ''L'', id' = 1\<rparr>]
      [''user_name'' \<mapsto> str_of_ascii ''alice'', ''password'' \<mapsto> str_of_ascii ''wrong'']
     = Inl (ValueError ''Wrong password'')
   \<and> login \<lparr>access_secret = ''dev_secret'', refresh_secret = ''dev_refresh'',
          access_expires = 3600, refresh_expires = 86400\<rparr>
      toy_sign findUserByUsername toy_checkpw 1000
      [\<lparr>user_name = str_of_ascii ''alice'', password_hash = str_of_ascii ''s1terces'',
        first_name = str_of_ascii ''A'', last_name = str_of_ascii ''L'', id' = 1\<rparr>]
      [''user_name'' \<mapsto> str_of_ascii ''bob'', ''password'' \<mapsto> str_of_ascii ''wrong'']
     = Inl (ValueError ''User not found'')"
  by (simp add: login_def getitem_def findUserByUsername_def encode_ascii toy_checkpw_def
      alice_is_not_bob)

text \<open>
  C7, as amended. A login with a wrong password (one that encodes and that the check
  answers with false) fails with a \<^verbatim>\<open>ValueError\<close> whether or not the username exists,
  with the message \<^verbatim>\<open>Wrong password\<close> when it exists and \<^verbatim>\<open>User not found\<close> when
  it does not; the two outcomes differ.
\<close>

theorem login_wrong_password_messages:
  assumes "dto_a ''user_name'' = Some name_a" and "dto_a ''password'' = Some password_a"
    and "get_user_by_username db name_a = Some user"
    and "encode password_a = Inr pw_a" and "encode (password_hash user) = Inr hashed"
    and "checkpw pw_a hashed = Inr False"
    and "dto_b ''user_name'' = Some name_b"
    and "get_user_by_username db name_b = None"
  shows "login cfg sign get_user_by_username checkpw now db dto_a
           = Inl (ValueError ''Wrong password'')
       \<and> login cfg sign get_user_by_username checkpw now db dto_b
           = Inl (ValueError ''User not found'')
       \<and> login cfg sign get_user_by_username checkpw now db dto_a
           \<noteq> login cfg sign get_user_by_username checkpw now db dto_b"
  using assms by (simp add: login_def getitem_def)

theorem login_wrong_password_messages_witness:
  "login \<lparr>access_secret = ''dev_secret'', refresh_secret = ''dev_refresh'',
          access_expires = 3600, refresh_expires = 86400\<rparr>
      toy_sign findUserByUsername toy_checkpw 1000
      [\<lparr>user_name = str_of_ascii ''alice'', password_hash = str_of_ascii ''s1terces'',
        first_name = str_of_ascii ''A'', last_name = str_of_ascii ''L'', id' = 1\<rparr>]
      [''user_name'' \<mapsto> str_of_ascii ''alice'', ''password'' \<mapsto> str_of_ascii ''guess'']
   \<noteq> login \<lparr>access_secret = ''dev_secret'', refresh_secret = ''dev_refresh'',
          access_expires = 3600, refresh_expires = 86400\<rparr>
      toy_sign findUserByUsername toy_checkpw 1000
      [\<lparr>user_name = str_of_ascii ''alice'', password_hash = str_of_ascii ''s1terces'',
        first_name = str_of_ascii ''A'', last_name = str_of_ascii ''L'', id' = 1\<rparr>]
      [''user_name'' \<mapsto> str_of_ascii ''bob'', ''password'' \<mapsto> str_of_ascii ''guess'']"
proof -
  let ?alice = "\<lparr>user_name = str_of_ascii ''alice'', password_hash = str_of_ascii ''s1terces'',
        first_name = str_of_ascii ''A'', last_name = str_of_ascii ''L'', id' = 1\<rparr>"
  have a: "findUserByUsername [?alice] (str_of_ascii ''alice'') = Some ?alice"
    by (simp add: findUserByUsername_def)
  have b: "findUserByUsername [?alice] (str_of_ascii ''bob'') = None"
    by (simp add: findUserByUsername_def alice_is_not_bob)
  have e1: "encode (str_of_ascii ''guess'') = Inr ''guess''"
    by (simp add: encode_ascii)
  have e2: "encode (password_hash ?alice) = Inr ''s1terces''"
    by (simp add: encode_ascii)
  have c: "toy_checkpw ''guess'' ''s1terces'' = Inr False"
    by (simp add: toy_checkpw_def)
  show ?thesis
    using login_wrong_password_messages [where dto_a = "[''user_name'' \<mapsto> str_of_ascii ''alice'',
          ''password'' \<mapsto> str_of_ascii ''guess'']"
        and dto_b = "[''user_name'' \<mapsto> str_of_ascii ''bob'',
          ''password'' \<mapsto> str_of_ascii ''guess'']"
        and get_user_by_username = findUserByUsername and checkpw = toy_checkpw
        and db = "[?alice]" and sign = toy_sign and now = 1000
        and cfg = "\<lparr>access_secret = ''dev_secret'', refresh_secret = ''dev_refresh'',
          access_expires = 3600, refresh_expires = 86400\<rparr>", OF _ _ a e1 e2 c _ b]
    by simp
qed

subsection \<open>Registration\<close>



text \<open>
  C3. For credentials whose username is not in the credential store, and a hasher whose
  check accepts the hash it made of the password, register succeeds, a following login with
  the same credentials succeeds on the store register leaves, and the access tokens of the
  two calls verify, at any instant before their expiry, to the same subject: the id of the
  user now stored.
\<close>

theorem register_then_login:
  assumes "dto ''password'' = Some password" and "dto ''user_name'' = Some name"
    and "dto ''first_name'' = Some fname" and "dto ''last_name'' = Some lname"
    and "dto' ''user_name'' = Some name" and "dto' ''password'' = Some password"
    and "findUserByUsername db name = None"
    and "encode password = Inr pw" and "hashpw pw salt = Inr hashed"
    and "decode hashed = Inr hashed_str" and "encode hashed_str = Inr hashed'"
    and "checkpw pw hashed' = Inr True"
  shows "\<exists>tp db' tp' u.
           register cfg sign insertUser hashpw salt now db dto = Inr (tp, db')
         \<and> login cfg sign findUserByUsername checkpw now' db' dto' = Inr tp'
         \<and> findUserByUsername db' name = Some u
         \<and> sub (payload (access_token tp)) = str (id' u)
         \<and> sub (payload (access_token tp')) = str (id' u)
         \<and> (\<forall>t. t < now + access_expires cfg \<longrightarrow>
               verify sign (access_token tp) (access_secret cfg) t = Inr (str (id' u)))
         \<and> (\<forall>t. t < now' + access_expires cfg \<longrightarrow>
               verify sign (access_token tp') (access_secret cfg) t = Inr (str (id' u)))"
proof -
  let ?ud = "\<lparr>user_name = name, password_hash = hashed_str,
               first_name = fname, last_name = lname\<rparr>"
  let ?u = "\<lparr>user_name = name, password_hash = hashed_str,
              first_name = fname, last_name = lname, id' = fresh_id db\<rparr>"
  have ins: "insertUser db ?ud = Inr (?u, db @ [?u])"
    using insertUser_fresh [of db ?ud] assms(7) by simp
  have reg: "register cfg sign insertUser hashpw salt now db dto
               = Inr (generate_token_pair cfg sign now (id' ?u), db @ [?u])"
    using assms(1-4,8-10) ins
    by (simp add: register_def register_user_data_def getitem_def)
  have found: "findUserByUsername (db @ [?u]) name = Some ?u"
    using find_after_insert [of db ?u] assms(7) by simp
  have log: "login cfg sign findUserByUsername checkpw now' (db @ [?u]) dto'
               = Inr (generate_token_pair cfg sign now' (id' ?u))"
    using assms(5,6,8,11,12) found by (simp add: login_def getitem_def)
  show ?thesis
    using reg log found
    by (simp add: generate_token_pair_def jwt_encode_def verify_def)
qed

theorem register_then_login_witness:
  "\<exists>tp db' tp' u.
      register \<lparr>access_secret = ''dev_secret'', refresh_secret = ''dev_refresh'',
          access_expires = 3600, refresh_expires = 86400\<rparr>
        toy_sign insertUser toy_hashpw ''s1'' 1000 []
        [''user_name'' \<mapsto> str_of_ascii ''alice'', ''password'' \<mapsto> str_of_ascii ''secret'',
         ''first_name'' \<mapsto> str_of_ascii ''A'', ''last_name'' \<mapsto> str_of_ascii ''L'']
        = Inr (tp, db')
    \<and> login \<lparr>access_secret = ''dev_secret'', refresh_secret = ''dev_refresh'',
          access_expires = 3600, refresh_expires = 86400\<rparr>
        toy_sign findUserByUsername toy_checkpw 2000 db'
        [''user_name'' \<mapsto> str_of_ascii ''alice'', ''password'' \<mapsto> str_of_ascii ''secret'']
        = Inr tp'
    \<and> findUserByUsername db' (str_of_ascii ''alice'') = Some u
    \<and> verify toy_sign (access_token tp) ''dev_secret'' 2500 = Inr (str (id' u))
    \<and> verify toy_sign (access_token tp') ''dev_secret'' 2500 = Inr (str (id' u))"
proof -
  let ?cfg = "\<lparr>access_secret = ''dev_secret'', refresh_secret = ''dev_refresh'',
          access_expires = 3600, refresh_expires = 86400\<rparr>"
  have absent: "findUserByUsername [] (str_of_ascii ''alice'') = None"
    by (simp add: findUserByUsername_def)
  have e: "encode (str_of_ascii ''secret'') = Inr ''secret''"
    by (simp add: encode_ascii)
  have h: "toy_hashpw ''secret'' ''s1'' = Inr ''s1terces''"
    by (simp add: toy_hashpw_def)
  have d: "decode ''s1terces'' = Inr (str_of_ascii ''s1terces'')"
    by (simp add: decode_ascii)
  have e': "encode (str_of_ascii ''s1terces'') = Inr ''s1terces''"
    by (simp add: encode_ascii)
  have c: "toy_checkpw ''secret'' ''s1terces'' = Inr True"
    by (simp add: toy_checkpw_def)
  have inst: "\<exists>tp db' tp' u.
      register ?cfg toy_sign insertUser toy_hashpw ''s1'' 1000 []
        [''user_name'' \<mapsto> str_of_ascii ''alice'', ''password'' \<mapsto> str_of_ascii ''secret'',
         ''first_name'' \<mapsto> str_of_ascii ''A'', ''last_name'' \<mapsto> str_of_ascii ''L'']
        = Inr (tp, db')
    \<and> login ?cfg toy_sign findUserByUsername toy_checkpw 2000 db'
        [''user_name'' \<mapsto> str_of_ascii ''alice'', ''password'' \<mapsto> str_of_ascii ''secret'']
        = Inr tp'
    \<and> findUserByUsername db' (str_of_ascii ''alice'') = Some u
    \<and> sub (payload (access_token tp)) = str (id' u)
    \<and> sub (payload (access_token tp')) = str (id' u)
    \<and> (\<forall>t. t < 1000 + access_expires ?cfg \<longrightarrow>
          verify toy_sign (access_token tp) (access_secret ?cfg) t = Inr (str (id' u)))
    \<and> (\<forall>t. t < 2000 + access_expires ?cfg \<longrightarrow>
          verify toy_sign (access_token tp') (access_secret ?cfg) t = Inr (str (id' u)))"
    by (rule register_then_login [where dto = "[''user_name'' \<mapsto> str_of_ascii ''alice'',
          ''password'' \<mapsto> str_of_ascii ''secret'', ''first_name'' \<mapsto> str_of_ascii ''A'',
          ''last_name'' \<mapsto> str_of_ascii ''L'']"
        and dto' = "[''user_name'' \<mapsto> str_of_ascii ''alice'',
          ''password'' \<mapsto> str_of_ascii ''secret'']"
        and db = "[]" and checkpw = toy_checkpw and hashpw = toy_hashpw and salt = "''s1''"
        and cfg = ?cfg and sign = toy_sign and now = 1000 and now' = 2000,
        OF _ _ _ _ _ _ absent e h d e' c]) simp_all
  from inst obtain tp db' tp' u where
    r: "register ?cfg toy_sign insertUser toy_hashpw ''s1'' 1000 []
        [''user_name'' \<mapsto> str_of_ascii ''alice'', ''password'' \<mapsto> str_of_ascii ''secret'',
         ''first_name'' \<mapsto> str_of_ascii ''A'', ''last_name'' \<mapsto> str_of_ascii ''L'']
        = Inr (tp, db')"
    and l: "login ?cfg toy_sign findUserByUsername toy_checkpw 2000 db'
        [''user_name'' \<mapsto> str_of_ascii ''alice'', ''password'' \<mapsto> str_of_ascii ''secret'']
        = Inr tp'"
    and f: "findUserByUsername db' (str_of_ascii ''alice'') = Some u"
    and v: "\<forall>t. t < 1000 + access_expires ?cfg \<longrightarrow>
       verify toy_sign (access_token tp) (access_secret ?cfg) t = Inr (str (id' u))"
    and v': "\<forall>t. t < 2000 + access_expires ?cfg \<longrightarrow>
       verify toy_sign (access_token tp') (access_secret ?cfg) t = Inr (str (id' u))"
    by blast
  from v v' have "verify toy_sign (access_token tp) ''dev_secret'' 2500 = Inr (str (id' u))"
    and "verify toy_sign (access_token tp') ''dev_secret'' 2500 = Inr (str (id' u))"
    by simp_all
  with r l f show ?thesis
    by blast
qed




subsection \<open>Token minting and configuration\<close>

text \<open>
  C4. For every user id, the access token and the refresh token of a minted pair carry the
  same subject, \<^verbatim>\<open>str(user_id)\<close>, and both expiry instants are computed from the one
  instant \<open>now\<close>: \<open>now + access_expires\<close> and \<open>now + refresh_expires\<close>.
\<close>

theorem generate_token_pair_same_subject_same_instant:
  "sub (payload (access_token (generate_token_pair cfg sign now uid))) = str uid
   \<and> sub (payload (refresh_token (generate_token_pair cfg sign now uid))) = str uid
   \<and> exp (payload (access_token (generate_token_pair cfg sign now uid))) = now + access_expires cfg
   \<and> exp (payload (refresh_token (generate_token_pair cfg sign now uid))) = now + refresh_expires cfg"
  by (simp add: generate_token_pair_def jwt_encode_def)

text \<open>
  C5. The claim that the two tokens are always signed with distinct secrets, so that a
  refresh token never verifies as an access token, does not hold: with both secret options
  set to the same value the module loads, and a minted refresh token verifies under the
  access secret.
\<close>

theorem same_secret_refresh_verifies_as_access:
  "load_config [''ACCESS_TOKEN_SECRET'' \<mapsto> ''k'', ''REFRESH_TOKEN_SECRET'' \<mapsto> ''k'']
     = Inr \<lparr>access_secret = ''k'', refresh_secret = ''k'',
            access_expires = 3600, refresh_expires = 86400\<rparr>
   \<and> verify toy_sign (refresh_token (generate_token_pair
         \<lparr>access_secret = ''k'', refresh_secret = ''k'',
          access_expires = 3600, refresh_expires = 86400\<rparr> toy_sign 1000 7)) ''k'' 2000
       = Inr (str 7)"
  by (simp add: load_config_def ACCESS_EXPIRES_def REFRESH_EXPIRES_def ACCESS_SECRET_def
      REFRESH_SECRET_def getenv_def int_of_str_3600 int_of_str_86400
      generate_token_pair_def jwt_encode_def verify_def)

text \<open>
  C5, as amended. Minting builds the access token from the claims
  \<^verbatim>\<open>{sub: str(user_id), exp: now + ACCESS_EXPIRES}\<close> and the refresh token from
  \<^verbatim>\<open>{sub: str(user_id), exp: now + REFRESH_EXPIRES}\<close>, signs the first with the
  configured access secret and the second with the configured refresh secret, two options
  whose defaults differ, both under \<^verbatim>\<open>HS256\<close>. A refresh token fails the signature
  check of an access token exactly when the access secret signs its claims differently
  from the refresh secret; nothing in the code makes the two secrets differ.
\<close>

theorem generate_token_pair_signing:
  "payload (access_token (generate_token_pair cfg sign now uid))
     = \<lparr>sub = str uid, exp = now + access_expires cfg\<rparr>
   \<and> payload (refresh_token (generate_token_pair cfg sign now uid))
     = \<lparr>sub = str uid, exp = now + refresh_expires cfg\<rparr>
   \<and> signature (access_token (generate_token_pair cfg sign now uid))
     = sign ''HS256'' (access_secret cfg) \<lparr>sub = str uid, exp = now + access_expires cfg\<rparr>
   \<and> signature (refresh_token (generate_token_pair cfg sign now uid))
     = sign ''HS256'' (refresh_secret cfg) \<lparr>sub = str uid, exp = now + refresh_expires cfg\<rparr>
   \<and> algorithm (access_token (generate_token_pair cfg sign now uid)) = ''HS256''
   \<and> algorithm (refresh_token (generate_token_pair cfg sign now uid)) = ''HS256''
   \<and> (verify sign (refresh_token (generate_token_pair cfg sign now uid)) (access_secret cfg) t
          = Inl InvalidToken
        \<longleftrightarrow> sign ''HS256'' (access_secret cfg) \<lparr>sub = str uid, exp = now + refresh_expires cfg\<rparr>
            \<noteq> sign ''HS256'' (refresh_secret cfg)
                \<lparr>sub = str uid, exp = now + refresh_expires cfg\<rparr>)
   \<and> ACCESS_SECRET Map.empty \<noteq> REFRESH_SECRET Map.empty"
  by (auto simp: generate_token_pair_def jwt_encode_def verify_def ACCESS_SECRET_def
      REFRESH_SECRET_def getenv_def)

theorem generate_token_pair_signing_witness:
  "signature (access_token (generate_token_pair
       \<lparr>access_secret = ''dev_secret'', refresh_secret = ''dev_refresh'',
        access_expires = 3600, refresh_expires = 86400\<rparr> toy_sign 1000 7))
     = (''HS256'', ''dev_secret'', \<lparr>sub = str 7, exp = 4600\<rparr>)
   \<and> signature (refresh_token (generate_token_pair
       \<lparr>access_secret = ''dev_secret'', refresh_secret = ''dev_refresh'',
        access_expires = 3600, refresh_expires = 86400\<rparr> toy_sign 1000 7))
     = (''HS256'', ''dev_refresh'', \<lparr>sub = str 7, exp = 87400\<rparr>)
   \<and> verify toy_sign (refresh_token (generate_token_pair
       \<lparr>access_secret = ''dev_secret'', refresh_secret = ''dev_refresh'',
        access_expires = 3600, refresh_expires = 86400\<rparr> toy_sign 1000 7)) ''dev_secret'' 2000
       = Inl InvalidToken"
  using generate_token_pair_signing [where cfg = "\<lparr>access_secret = ''dev_secret'',
        refresh_secret = ''dev_refresh'', access_expires = 3600, refresh_expires = 86400\<rparr>"
      and sign = toy_sign and now = 1000 and uid = 7 and t = 2000]
  by (simp add: toy_sign_def)

text \<open>
  C9. The claim that the lifetimes are read from options named
  \<^verbatim>\<open>access_token_ttl_seconds\<close> and \<^verbatim>\<open>refresh_token_ttl_seconds\<close> does not hold: an
  environment that sets them, in either case of letters, leaves both lifetimes at their
  defaults.
\<close>

theorem ttl_seconds_options_not_read:
  "ACCESS_EXPIRES [''access_token_ttl_seconds'' \<mapsto> ''60'', ''ACCESS_TOKEN_TTL_SECONDS'' \<mapsto> ''60'']
     = Inr 3600
   \<and> REFRESH_EXPIRES [''refresh_token_ttl_seconds'' \<mapsto> ''60'', ''REFRESH_TOKEN_TTL_SECONDS'' \<mapsto> ''60'']
     = Inr 86400"
  by (simp add: ACCESS_EXPIRES_def REFRESH_EXPIRES_def getenv_def int_of_str_3600 int_of_str_86400)

text \<open>
  C9, as amended. The token configuration is read from the environment variables
  \<^verbatim>\<open>ACCESS_TOKEN_SECRET\<close>, \<^verbatim>\<open>REFRESH_TOKEN_SECRET\<close>, \<^verbatim>\<open>ACCESS_TOKEN_EXPIRES\<close>
  and \<^verbatim>\<open>REFRESH_TOKEN_EXPIRES\<close> and from nothing else; when a variable is absent the
  secrets default to \<^verbatim>\<open>dev_secret\<close> and \<^verbatim>\<open>dev_refresh\<close>, the access lifetime to
  3600 seconds and the refresh lifetime to 86400 seconds.
\<close>

theorem token_configuration:
  "ACCESS_SECRET environ
     = (case environ ''ACCESS_TOKEN_SECRET'' of None \<Rightarrow> ''dev_secret'' | Some v \<Rightarrow> v)
   \<and> REFRESH_SECRET environ
     = (case environ ''REFRESH_TOKEN_SECRET'' of None \<Rightarrow> ''dev_refresh'' | Some v \<Rightarrow> v)
   \<and> ACCESS_EXPIRES environ
     = (case environ ''ACCESS_TOKEN_EXPIRES'' of None \<Rightarrow> Inr 3600 | Some v \<Rightarrow> int_of_str v)
   \<and> REFRESH_EXPIRES environ
     = (case environ ''REFRESH_TOKEN_EXPIRES'' of None \<Rightarrow> Inr 86400 | Some v \<Rightarrow> int_of_str v)
   \<and> (environ ''ACCESS_TOKEN_SECRET'' = environ' ''ACCESS_TOKEN_SECRET''
        \<and> environ ''REFRESH_TOKEN_SECRET'' = environ' ''REFRESH_TOKEN_SECRET''
        \<and> environ ''ACCESS_TOKEN_EXPIRES'' = environ' ''ACCESS_TOKEN_EXPIRES''
        \<and> environ ''REFRESH_TOKEN_EXPIRES'' = environ' ''REFRESH_TOKEN_EXPIRES''
      \<longrightarrow> load_config environ = load_config environ')"
proof -
  have secrets:
    "ACCESS_SECRET environ
       = (case environ ''ACCESS_TOKEN_SECRET'' of None \<Rightarrow> ''dev_secret'' | Some v \<Rightarrow> v)"
    "REFRESH_SECRET environ
       = (case environ ''REFRESH_TOKEN_SECRET'' of None \<Rightarrow> ''dev_refresh'' | Some v \<Rightarrow> v)"
    by (simp_all add: ACCESS_SECRET_def REFRESH_SECRET_def getenv_def)
  have ttls:
    "ACCESS_EXPIRES environ
       = (case environ ''ACCESS_TOKEN_EXPIRES'' of None \<Rightarrow> Inr 3600 | Some v \<Rightarrow> int_of_str v)"
    "REFRESH_EXPIRES environ
       = (case environ ''REFRESH_TOKEN_EXPIRES'' of None \<Rightarrow> Inr 86400 | Some v \<Rightarrow> int_of_str v)"
    by (simp_all add: ACCESS_EXPIRES_def REFRESH_EXPIRES_def getenv_def int_of_str_3600
        int_of_str_86400 split: option.splits)
  have only: "load_config environ = load_config environ'"
    if "environ ''ACCESS_TOKEN_SECRET'' = environ' ''ACCESS_TOKEN_SECRET''"
      and "environ ''REFRESH_TOKEN_SECRET'' = environ' ''REFRESH_TOKEN_SECRET''"
      and "environ ''ACCESS_TOKEN_EXPIRES'' = environ' ''ACCESS_TOKEN_EXPIRES''"
      and "environ ''REFRESH_TOKEN_EXPIRES'' = environ' ''REFRESH_TOKEN_EXPIRES''"
  proof -
    have "ACCESS_EXPIRES environ = ACCESS_EXPIRES environ'"
      and "REFRESH_EXPIRES environ = REFRESH_EXPIRES environ'"
      and "ACCESS_SECRET environ = ACCESS_SECRET environ'"
      and "REFRESH_SECRET environ = REFRESH_SECRET environ'"
      using that
      by (simp_all add: ACCESS_EXPIRES_def REFRESH_EXPIRES_def ACCESS_SECRET_def
          REFRESH_SECRET_def getenv_def)
    then show ?thesis
      unfolding load_config_def by (simp split: sum.splits)
  qed
  from secrets ttls only show ?thesis by blast
qed

theorem token_configuration_witness:
  "load_config [''access_token_ttl_seconds'' \<mapsto> ''60''] = load_config Map.empty
   \<and> ACCESS_EXPIRES Map.empty = Inr 3600
   \<and> REFRESH_EXPIRES Map.empty = Inr 86400
   \<and> ACCESS_EXPIRES [''ACCESS_TOKEN_EXPIRES'' \<mapsto> ''3600''] = int_of_str ''3600''"
  using token_configuration [where environ = "[''access_token_ttl_seconds'' \<mapsto> ''60'']"
      and environ' = Map.empty]
    token_configuration [where environ = Map.empty and environ' = Map.empty]
    token_configuration [where environ = "[''ACCESS_TOKEN_EXPIRES'' \<mapsto> ''3600'']"
      and environ' = Map.empty]
  by simp

subsection \<open>Post controller\<close>

text \<open>
  C8. The listing handler rejects a \<^verbatim>\<open>limit\<close> below 1 and an \<^verbatim>\<open>offset\<close> below 0
  before the service is called; when every parameter sent is within its bound, the service
  is called on the filter whose \<^verbatim>\<open>limit\<close> is the one sent or 100 when absent, whose
  \<^verbatim>\<open>offset\<close> is the one sent or 0 when absent, whose \<^verbatim>\<open>reply_to_id\<close>,
  \<^verbatim>\<open>owner_id\<close> and \<^verbatim>\<open>search\<close> are passed on as sent or absent, and whose
  \<^verbatim>\<open>user_id\<close> is the subject of the authenticated user.
\<close>

theorem get_all_posts_handler_filter:
  "(\<forall>v. lim = Some v \<and> v < 1 \<longrightarrow>
      (\<exists>names. get_all_posts_handler str_e g lim off rep own srch usr
                  = Inl (RequestValidationError names) \<and> ''limit'' \<in> set names))
   \<and> (\<forall>v. off = Some v \<and> v < 0 \<longrightarrow>
      (\<exists>names. get_all_posts_handler str_e g lim off rep own srch usr
                  = Inl (RequestValidationError names) \<and> ''offset'' \<in> set names))
   \<and> ((\<forall>v. lim = Some v \<longrightarrow> 1 \<le> v) \<and> (\<forall>v. off = Some v \<longrightarrow> 0 \<le> v)
        \<and> (\<forall>v. rep = Some v \<longrightarrow> 1 \<le> v) \<and> (\<forall>v. own = Some v \<longrightarrow> 1 \<le> v) \<longrightarrow>
      get_all_posts_handler str_e g lim off rep own srch usr =
        (case g \<lparr>user_id = sub usr,
                 limit = Some (case lim of None \<Rightarrow> 100 | Some v \<Rightarrow> v),
                 offset = Some (case off of None \<Rightarrow> 0 | Some v \<Rightarrow> v),
                 reply_to_id = rep, owner_id = own, search = srch\<rparr> of
           Inl e \<Rightarrow> Inl (HTTPException 400 (str_e e))
         | Inr r \<Rightarrow> Inr r))"
  by (auto simp: get_all_posts_handler_def Query_ge_def split: option.splits)

theorem get_all_posts_handler_filter_witness:
  "get_all_posts_handler str_post_error (\<lambda>f. Inr f) None None None None None \<lparr>sub = 7 :: int\<rparr>
     = Inr \<lparr>user_id = 7, limit = Some 100, offset = Some 0, reply_to_id = None,
            owner_id = None, search = None\<rparr>
   \<and> get_all_posts_handler str_post_error (\<lambda>f. Inr f) (Some 10) (Some 20) (Some 4) None (Some ''go'')
       \<lparr>sub = 7 :: int\<rparr>
     = Inr \<lparr>user_id = 7, limit = Some 10, offset = Some 20, reply_to_id = Some 4,
            owner_id = None, search = Some ''go''\<rparr>
   \<and> (\<exists>names. get_all_posts_handler str_post_error (\<lambda>f. Inr f :: post_error + int PostFilterDTO)
                  (Some 0) None None None None \<lparr>sub = 7 :: int\<rparr>
                = Inl (RequestValidationError names) \<and> ''limit'' \<in> set names)
   \<and> (\<exists>names. get_all_posts_handler str_post_error (\<lambda>f. Inr f :: post_error + int PostFilterDTO)
                  None (Some (- 1)) None None None \<lparr>sub = 7 :: int\<rparr>
                = Inl (RequestValidationError names) \<and> ''offset'' \<in> set names)"
  using get_all_posts_handler_filter [where str_e = str_post_error and g = "\<lambda>f. Inr f :: post_error + int PostFilterDTO"
      and lim = None and off = None and rep = None and own = None and srch = None
      and usr = "\<lparr>sub = 7 :: int\<rparr>"]
    get_all_posts_handler_filter [where str_e = str_post_error and g = "\<lambda>f. Inr f :: post_error + int PostFilterDTO"
      and lim = "Some 10" and off = "Some 20" and rep = "Some 4" and own = None
      and srch = "Some ''go''" and usr = "\<lparr>sub = 7 :: int\<rparr>"]
    get_all_posts_handler_filter [where str_e = str_post_error and g = "\<lambda>f. Inr f :: post_error + int PostFilterDTO"
      and lim = "Some 0" and off = None and rep = None and own = None and srch = None
      and usr = "\<lparr>sub = 7 :: int\<rparr>"]
    get_all_posts_handler_filter [where str_e = str_post_error and g = "\<lambda>f. Inr f :: post_error + int PostFilterDTO"
      and lim = None and off = "Some (- 1)" and rep = None and own = None and srch = None
      and usr = "\<lparr>sub = 7 :: int\<rparr>"]
  by simp

text \<open>
  C6. The claim that two likes in succession always raise \<^verbatim>\<open>like_count\<close> by exactly 1
  does not hold for a viewer who already likes the post: both calls succeed and the count
  stays at 1.
\<close>

theorem second_like_of_liked_post_keeps_count:
  "(case like_post_handler str_post_error likePost 1 \<lparr>sub = 7 :: int\<rparr>
           \<lparr>posts = [1 \<mapsto> \<lparr>post_owner = 3, post_reply_to = None, body = ''hello'',
                            created_at = 0, view_count = 0, like_count = 1\<rparr>],
            like_edges = {(1, 7)}\<rparr> of
      Inl e \<Rightarrow> None
    | Inr s1 \<Rightarrow>
        (case like_post_handler str_post_error likePost 1 \<lparr>sub = 7\<rparr> s1 of
           Inl e \<Rightarrow> None
         | Inr s2 \<Rightarrow> map_option like_count (posts s2 1))) = Some 1"
  by (simp add: like_post_handler_def Path_gt_def likePost_def upsertLikeEdge_def)

text \<open>
  C6, as amended. For an existing post, two calls of \<^verbatim>\<open>likePost\<close> in succession both
  succeed, the second is a no-op, the relation ends \<^verbatim>\<open>Liked\<close>, and \<^verbatim>\<open>like_count\<close>
  ends 1 above its value before the first call when the viewer did not like the post before,
  and unchanged when the viewer did. For a positive post id the handler returns the same
  stores.
\<close>

theorem likePost_twice:
  assumes "posts s post_id = Some p"
  shows "\<exists>s1. likePost post_id viewer s = Inr s1
          \<and> likePost post_id viewer s1 = Inr s1
          \<and> map_option like_count (posts s1 post_id)
              = Some (like_count p + (if (post_id, viewer) \<in> like_edges s then 0 else 1))
          \<and> like_relation s1 post_id viewer = Liked
          \<and> (0 < post_id \<longrightarrow>
                like_post_handler str_post_error likePost post_id \<lparr>sub = viewer\<rparr> s = Inr s1
              \<and> like_post_handler str_post_error likePost post_id \<lparr>sub = viewer\<rparr> s1 = Inr s1)"
  using assms
  by (auto simp: likePost_def upsertLikeEdge_def like_relation_def like_post_handler_def
      Path_gt_def)

theorem likePost_twice_witness:
  "\<exists>s1. likePost 1 (7 :: int)
           \<lparr>posts = [1 \<mapsto> \<lparr>post_owner = 3, post_reply_to = None, body = ''hello'',
                            created_at = 0, view_count = 0, like_count = 0\<rparr>],
            like_edges = {}\<rparr> = Inr s1
        \<and> likePost 1 7 s1 = Inr s1
        \<and> map_option like_count (posts s1 1) = Some 1
        \<and> like_relation s1 1 7 = Liked
        \<and> like_post_handler str_post_error likePost 1 \<lparr>sub = 7\<rparr>
             \<lparr>posts = [1 \<mapsto> \<lparr>post_owner = 3, post_reply_to = None, body = ''hello'',
                            created_at = 0, view_count = 0, like_count = 0\<rparr>],
              like_edges = {}\<rparr> = Inr s1"
  using likePost_twice [where post_id = 1 and viewer = "7 :: int"
      and p = "\<lparr>post_owner = 3, post_reply_to = None, body = ''hello'',
                 created_at = 0, view_count = 0, like_count = 0\<rparr>"
      and s = "\<lparr>posts = [1 \<mapsto> \<lparr>post_owner = 3, post_reply_to = None, body = ''hello'',
                            created_at = 0, view_count = 0, like_count = 0\<rparr>],
               like_edges = {}\<rparr>"]
  by auto

end
